theory Spec2Isabelle
  imports Complex_Main
begin

section \<open>Dates, times and durations\<close>

text \<open>
  The calculator works on naive \<^verbatim>\<open>datetime\<close> values of Python's standard library.
  A date is modelled by its proleptic Gregorian ordinal (\<^verbatim>\<open>date.toordinal()\<close>, day 1 is
  0001-01-01), a time of day by the number of microseconds since midnight, and a
  \<^verbatim>\<open>datetime\<close> by the pair of both. Comparison of two \<^verbatim>\<open>datetime\<close>s is lexicographic,
  comparison of two times of day is comparison of the microsecond counts.
\<close>

record datetime =
  date :: int
  time :: int

definition combine :: "int \<Rightarrow> int \<Rightarrow> datetime" where
  "combine d t = \<lparr>date = d, time = t\<rparr>"

definition time_hms :: "int \<Rightarrow> int \<Rightarrow> int \<Rightarrow> int" where
  \<comment> \<open>\<^verbatim>\<open>time(h, m, s)\<close>, microsecond 0\<close>
  "time_hms h m s = ((h * 60 + m) * 60 + s) * 1000000"

definition time_hm :: "int \<Rightarrow> int \<Rightarrow> int" where
  \<comment> \<open>\<^verbatim>\<open>time(h, m)\<close>\<close>
  "time_hm h m = time_hms h m 0"

definition time_min :: int where
  \<comment> \<open>\<^verbatim>\<open>time.min\<close>, 00:00:00\<close>
  "time_min = 0"

definition time_max :: int where
  \<comment> \<open>\<^verbatim>\<open>time.max\<close>, 23:59:59.999999\<close>
  "time_max = time_hms 23 59 59 + 999999"

definition MAXORDINAL :: int where
  \<comment> \<open>\<^verbatim>\<open>date.max.toordinal()\<close>, the ordinal of 9999-12-31\<close>
  "MAXORDINAL = 3652059"

definition valid_datetime :: "datetime \<Rightarrow> bool" where
  "valid_datetime x =
     (0 < date x \<and> date x \<le> MAXORDINAL \<and> 0 \<le> time x \<and> time x \<le> time_max)"

definition weekday :: "int \<Rightarrow> int" where
  \<comment> \<open>\<^verbatim>\<open>date.weekday()\<close>: Monday is 0, Sunday is 6\<close>
  "weekday d = (d + 6) mod 7"

definition dt_less :: "datetime \<Rightarrow> datetime \<Rightarrow> bool" where
  "dt_less a b = (date a < date b \<or> (date a = date b \<and> time a < time b))"

definition dt_max :: "datetime \<Rightarrow> datetime \<Rightarrow> datetime" where
  \<comment> \<open>\<^verbatim>\<open>max(a, b)\<close>: the second argument only when it is strictly greater\<close>
  "dt_max a b = (if dt_less a b then b else a)"

definition dt_min :: "datetime \<Rightarrow> datetime \<Rightarrow> datetime" where
  \<comment> \<open>\<^verbatim>\<open>min(a, b)\<close>: the second argument only when it is strictly smaller\<close>
  "dt_min a b = (if dt_less b a then b else a)"

definition microseconds_between :: "datetime \<Rightarrow> datetime \<Rightarrow> int" where
  \<comment> \<open>the \<^verbatim>\<open>timedelta\<close> \<^verbatim>\<open>e - s\<close>, in microseconds\<close>
  "microseconds_between s e = (date e - date s) * 86400000000 + (time e - time s)"

definition total_seconds :: "int \<Rightarrow> rat" where
  "total_seconds us = of_int us / 1000000"

text \<open>
  The calendar of \<^verbatim>\<open>datetime\<close> (\<^verbatim>\<open>_ymd2ord\<close>), used to write the dates of the
  examples by year, month and day.
\<close>

definition is_leap :: "int \<Rightarrow> bool" where
  "is_leap y = (y mod 4 = 0 \<and> (0 < y mod 100 \<or> y mod 400 = 0))"

definition days_before_year :: "int \<Rightarrow> int" where
  "days_before_year y = (y - 1) * 365 + (y - 1) div 4 - (y - 1) div 100 + (y - 1) div 400"

definition days_before_month :: "int \<Rightarrow> int \<Rightarrow> int" where
  "days_before_month y m =
     [0, 31, 59, 90, 120, 151, 181, 212, 243, 273, 304, 334] ! nat (m - 1)
       + (if 2 < m \<and> is_leap y then 1 else 0)"

definition ymd2ord :: "int \<Rightarrow> int \<Rightarrow> int \<Rightarrow> int" where
  "ymd2ord y m d = days_before_year y + days_before_month y m + d"

definition mk_datetime :: "int \<Rightarrow> int \<Rightarrow> int \<Rightarrow> int \<Rightarrow> int \<Rightarrow> datetime" where
  \<comment> \<open>\<^verbatim>\<open>datetime(year, month, day, hour, minute)\<close>\<close>
  "mk_datetime y m d hh mm = combine (ymd2ord y m d) (time_hm hh mm)"

section \<open>Rounding\<close>

text \<open>
  Python's \<^verbatim>\<open>round(x)\<close> rounds to the nearest integer and a tie to the even neighbour;
  \<^verbatim>\<open>round(x, 2)\<close> does the same at the second decimal place.
\<close>

definition py_round :: "rat \<Rightarrow> int" where
  "py_round q =
     (let f = \<lfloor>q\<rfloor>; r = q - of_int f
      in if r < 1 / 2 then f
         else if 1 / 2 < r then f + 1
         else if even f then f else f + 1)"

definition round2 :: "rat \<Rightarrow> rat" where
  "round2 q = of_int (py_round (q * 100)) / 100"

section \<open>The rate table\<close>

datatype error = OverflowError | KeyError | TypeError

datatype cap = Hours int | UpToMidnight

record hourly_rule =
  max_stay :: cap
  price_per_hour :: rat

record flat_rule =
  price_one_time :: rat

record day_rates =
  r0800_1659 :: hourly_rule
  r1700_2359 :: hourly_rule
  r0000_0759 :: flat_rule

definition RATES :: "int \<Rightarrow> day_rates option" where
  "RATES i =
     (if 0 \<le> i \<and> i < 5 then
        Some \<lparr>r0800_1659 = \<lparr>max_stay = Hours 2, price_per_hour = 10\<rparr>,
              r1700_2359 = \<lparr>max_stay = UpToMidnight, price_per_hour = 5\<rparr>,
              r0000_0759 = \<lparr>price_one_time = 20\<rparr>\<rparr>
      else if i = 5 then
        Some \<lparr>r0800_1659 = \<lparr>max_stay = Hours 4, price_per_hour = 3\<rparr>,
              r1700_2359 = \<lparr>max_stay = UpToMidnight, price_per_hour = 5\<rparr>,
              r0000_0759 = \<lparr>price_one_time = 20\<rparr>\<rparr>
      else if i = 6 then
        Some \<lparr>r0800_1659 = \<lparr>max_stay = Hours 8, price_per_hour = 2\<rparr>,
              r1700_2359 = \<lparr>max_stay = UpToMidnight, price_per_hour = 5\<rparr>,
              r0000_0759 = \<lparr>price_one_time = 20\<rparr>\<rparr>
      else None)"

section \<open>The fee calculation\<close>

text \<open>
  The source computes amounts of money in floating point. Here they are rationals and the
  arithmetic is exact. Prices and hour counts are small whole numbers and 0.5 is a power
  of two, so without the frequent-parker flag every floating-point operation of the source
  is exact and the rational result is the source's result; with the flag the factor 0.9 is
  the fraction 9/10 here, where the source works with the nearest binary fraction and
  rounds the total to two decimals at the end (\<^verbatim>\<open>round(total_fee, 2)\<close>).

  The class \<^verbatim>\<open>PricingCalculator\<close> holds one field, \<^verbatim>\<open>is_frequent_parker\<close>, which the
  methods only read: it is the first argument \<open>fp\<close> of the functions below. The body of
  the loop of \<^verbatim>\<open>calculate_fee\<close> is cut into its three blocks \<open>slot1\<close>, \<open>slot2\<close> and
  \<open>slot3\<close>, each taking the running total and returning the new one.
\<close>

definition apply_discount :: "bool \<Rightarrow> rat \<Rightarrow> datetime \<Rightarrow> rat" where
  "apply_discount is_frequent_parker price current_time =
     (if \<not> is_frequent_parker then price
      else if time_hm 17 0 \<le> time current_time \<or> time current_time < time_hm 8 0
        then price * (1 / 2)
      else price * (9 / 10))"

text \<open>
  The hour count of an overlap. The source divides in floating point; the quotient is a
  tie of \<^verbatim>\<open>round\<close> exactly when the overlap is an odd number of half hours, where the
  floating-point quotient is exact, and every other overlap within a day stays more than a
  rounding error away from a tie, so rounding the exact quotient gives the same integer.
\<close>

definition hours_in_slot :: "datetime \<Rightarrow> datetime \<Rightarrow> int" where
  \<comment> \<open>\<^verbatim>\<open>round((overlap_end - overlap_start).total_seconds() / 3600)\<close>\<close>
  "hours_in_slot overlap_start overlap_end =
     py_round (total_seconds (microseconds_between overlap_start overlap_end) / 3600)"

definition slot1 :: "bool \<Rightarrow> day_rates \<Rightarrow> int \<Rightarrow> datetime \<Rightarrow> datetime \<Rightarrow> rat \<Rightarrow> rat" where
  "slot1 fp rates_for_day current_day day_start_dt day_end_dt total_fee =
     (let slot1_start = time_hm 0 0; slot1_end = time_hm 7 59
      in if max (time day_start_dt) slot1_start \<le> min (time day_end_dt) slot1_end
         then total_fee + apply_discount fp (price_one_time (r0000_0759 rates_for_day))
                            (combine current_day (time_hm 1 0))
         else total_fee)"

definition slot2_fee :: "hourly_rule \<Rightarrow> int \<Rightarrow> error + rat" where
  "slot2_fee rate_info hours =
     (case max_stay rate_info of
        Hours m \<Rightarrow>
          Inr (if hours \<le> m then of_int hours * price_per_hour rate_info
               else of_int m * price_per_hour rate_info
                    + of_int (hours - m) * price_per_hour rate_info * 2)
      | UpToMidnight \<Rightarrow> Inl TypeError)"

definition slot2 ::
  "bool \<Rightarrow> day_rates \<Rightarrow> int \<Rightarrow> datetime \<Rightarrow> datetime \<Rightarrow> rat \<Rightarrow> error + rat" where
  "slot2 fp rates_for_day current_day day_start_dt day_end_dt total_fee =
     (let slot2_start_dt = combine current_day (time_hm 8 0);
          slot2_end_dt = combine current_day (time_hm 16 59);
          overlap_start = dt_max day_start_dt slot2_start_dt;
          overlap_end = dt_min day_end_dt slot2_end_dt
      in if dt_less overlap_start overlap_end then
           if 0 < hours_in_slot overlap_start overlap_end then
             (case slot2_fee (r0800_1659 rates_for_day)
                     (hours_in_slot overlap_start overlap_end) of
                Inl e \<Rightarrow> Inl e
              | Inr fee \<Rightarrow> Inr (total_fee + apply_discount fp fee slot2_start_dt))
           else Inr total_fee
         else Inr total_fee)"

definition slot3 :: "bool \<Rightarrow> day_rates \<Rightarrow> int \<Rightarrow> datetime \<Rightarrow> datetime \<Rightarrow> rat \<Rightarrow> rat" where
  "slot3 fp rates_for_day current_day day_start_dt day_end_dt total_fee =
     (let slot3_start_dt = combine current_day (time_hm 17 0);
          slot3_end_dt = combine current_day (time_hms 23 59 59);
          overlap_start = dt_max day_start_dt slot3_start_dt;
          overlap_end = dt_min day_end_dt slot3_end_dt
      in if dt_less overlap_start overlap_end then
           if 0 < hours_in_slot overlap_start overlap_end then
             total_fee + apply_discount fp
               (of_int (hours_in_slot overlap_start overlap_end)
                  * price_per_hour (r1700_2359 rates_for_day))
               slot3_start_dt
           else total_fee
         else total_fee)"

definition day_start :: "datetime \<Rightarrow> int \<Rightarrow> datetime" where
  "day_start arrival_dt current_day = dt_max arrival_dt (combine current_day time_min)"

definition day_end :: "datetime \<Rightarrow> int \<Rightarrow> datetime" where
  "day_end leave_dt current_day = dt_min leave_dt (combine current_day time_max)"

definition day_charges ::
  "bool \<Rightarrow> datetime \<Rightarrow> datetime \<Rightarrow> int \<Rightarrow> rat \<Rightarrow> error + rat" where
  "day_charges fp arrival_dt leave_dt current_day total_fee =
     (case RATES (weekday current_day) of
        None \<Rightarrow> Inl KeyError
      | Some rates_for_day \<Rightarrow>
          (let day_start_dt = day_start arrival_dt current_day;
               day_end_dt = day_end leave_dt current_day
           in case slot2 fp rates_for_day current_day day_start_dt day_end_dt
                     (slot1 fp rates_for_day current_day day_start_dt day_end_dt total_fee) of
                Inl e \<Rightarrow> Inl e
              | Inr t \<Rightarrow> Inr (slot3 fp rates_for_day current_day day_start_dt day_end_dt t)))"

function fee_loop ::
  "bool \<Rightarrow> datetime \<Rightarrow> datetime \<Rightarrow> int \<Rightarrow> rat \<Rightarrow> error + rat" where
  "fee_loop fp arrival_dt leave_dt current_day total_fee =
     (if current_day \<le> date leave_dt then
        (case day_charges fp arrival_dt leave_dt current_day total_fee of
           Inl e \<Rightarrow> Inl e
         | Inr t \<Rightarrow>
             if 0 < current_day + 1 \<and> current_day + 1 \<le> MAXORDINAL
             then fee_loop fp arrival_dt leave_dt (current_day + 1) t
             else Inl OverflowError)
      else Inr total_fee)"
  by pat_completeness auto
termination
  by (relation "measure (\<lambda>(fp, a, l, d, t). nat (date l + 1 - d))") auto

definition calculate_fee :: "bool \<Rightarrow> datetime \<Rightarrow> datetime \<Rightarrow> error + rat" where
  "calculate_fee fp arrival_dt leave_dt =
     (case fee_loop fp arrival_dt leave_dt (date arrival_dt) 0 of
        Inl e \<Rightarrow> Inl e
      | Inr total_fee \<Rightarrow> Inr (round2 total_fee))"

section \<open>Notions used to state the properties\<close>

text \<open>
  The amount one iteration of the loop adds to the running total: the day's charge,
  read off the iteration started at total 0.
\<close>

definition amount_of :: "error + rat \<Rightarrow> rat" where
  "amount_of r = (case r of Inl e \<Rightarrow> 0 | Inr x \<Rightarrow> x)"

definition day_amount :: "bool \<Rightarrow> datetime \<Rightarrow> datetime \<Rightarrow> int \<Rightarrow> rat" where
  "day_amount fp arrival_dt leave_dt current_day =
     amount_of (day_charges fp arrival_dt leave_dt current_day 0)"

text \<open>Amounts that are a whole number of tenths of the currency unit.\<close>

definition tenths :: "rat \<Rightarrow> bool" where
  "tenths x = (x * 10 \<in> \<int>)"


text \<open>
  The clock-time window each slot of the loop body charges for: the closed interval
  between the two bounds the body builds for the slot (\<^verbatim>\<open>slot1_start\<close> and
  \<^verbatim>\<open>slot1_end\<close>, the times of \<^verbatim>\<open>slot2_start_dt\<close> and \<^verbatim>\<open>slot2_end_dt\<close>, the times of
  \<^verbatim>\<open>slot3_start_dt\<close> and \<^verbatim>\<open>slot3_end_dt\<close>).
\<close>

definition in_slot1 :: "int \<Rightarrow> bool" where
  "in_slot1 t = (time_hm 0 0 \<le> t \<and> t \<le> time_hm 7 59)"

definition in_slot2 :: "int \<Rightarrow> bool" where
  "in_slot2 t = (time_hm 8 0 \<le> t \<and> t \<le> time_hm 16 59)"

definition in_slot3 :: "int \<Rightarrow> bool" where
  "in_slot3 t = (time_hm 17 0 \<le> t \<and> t \<le> time_hms 23 59 59)"

section \<open>Basic facts\<close>

declare fee_loop.simps [simp del]

lemma amount_of_Inr: "amount_of (Inr x) = x"
  by (simp add: amount_of_def)

lemma py_round_of_int: "py_round (of_int n) = n"
  by (simp add: py_round_def)

lemma py_round_div:
  assumes "0 < d"
  shows "py_round (of_int n / of_int d) =
           (if 2 * (n mod d) < d then n div d
            else if d < 2 * (n mod d) then n div d + 1
            else if even (n div d) then n div d else n div d + 1)"
proof -
  have fl: "\<lfloor>(of_int n / of_int d :: rat)\<rfloor> = n div d"
    by (rule floor_divide_of_int_eq)
  have dpos: "(0::rat) < of_int d"
    using assms by simp
  have "(of_int n :: rat) = of_int (n div d) * of_int d + of_int (n mod d)"
    by (metis of_int_add of_int_mult div_mult_mod_eq)
  then have rem: "(of_int n / of_int d :: rat) - of_int (n div d) = of_int (n mod d) / of_int d"
    using dpos by (simp add: field_simps)
  have lt: "(of_int (n mod d) / of_int d < (1 / 2 :: rat)) = (2 * (n mod d) < d)"
  proof -
    have "(of_int (n mod d) / of_int d < (1 / 2 :: rat)) = ((of_int (2 * (n mod d)) :: rat) < of_int d)"
      using dpos by (simp add: field_simps)
    then show ?thesis by (simp only: of_int_less_iff)
  qed
  have gt: "((1 / 2 :: rat) < of_int (n mod d) / of_int d) = (d < 2 * (n mod d))"
  proof -
    have "((1 / 2 :: rat) < of_int (n mod d) / of_int d) = ((of_int d :: rat) < of_int (2 * (n mod d)))"
      using dpos by (simp add: field_simps)
    then show ?thesis by (simp only: of_int_less_iff)
  qed
  show ?thesis
    unfolding py_round_def Let_def fl rem lt gt by simp
qed

lemma hours_in_slot_eq:
  "hours_in_slot s e =
     (if microseconds_between s e mod 3600000000 < 1800000000
        then microseconds_between s e div 3600000000
      else if 1800000000 < microseconds_between s e mod 3600000000
        then microseconds_between s e div 3600000000 + 1
      else if even (microseconds_between s e div 3600000000)
        then microseconds_between s e div 3600000000
      else microseconds_between s e div 3600000000 + 1)"
proof -
  define us where "us = microseconds_between s e"
  have A: "total_seconds us / 3600 = of_int us / of_int 3600000000"
    by (simp add: total_seconds_def)
  have B: "py_round (of_int us / of_int 3600000000) =
     (if us mod 3600000000 < 1800000000 then us div 3600000000
      else if 1800000000 < us mod 3600000000 then us div 3600000000 + 1
      else if even (us div 3600000000) then us div 3600000000
      else us div 3600000000 + 1)"
    by (subst py_round_div) simp_all
  show ?thesis
    unfolding hours_in_slot_def us_def [symmetric] A B ..
qed

lemma weekday_range: "0 \<le> weekday d \<and> weekday d < 7"
  by (simp add: weekday_def)

lemma tenths_add: "tenths x \<Longrightarrow> tenths y \<Longrightarrow> tenths (x + y)"
  by (simp add: tenths_def distrib_right)

lemma tenths_0: "tenths 0"
  by (simp add: tenths_def)

lemma tenths_of_int: "tenths (of_int n)"
  by (simp add: tenths_def)

lemma tenths_sum: "(\<And>d. tenths (g d)) \<Longrightarrow> tenths (sum g (A::int set))"
  by (induction A rule: infinite_finite_induct) (simp_all add: tenths_0 tenths_add)

lemma round2_tenths:
  assumes "tenths x"
  shows "round2 x = x"
proof -
  from assms obtain n :: int where n: "x * 10 = of_int n"
    by (auto simp: tenths_def elim: Ints_cases)
  then have "x * 100 = of_int (n * 10)"
    by simp
  then have "py_round (x * 100) = n * 10"
    by (simp only: py_round_of_int)
  then show ?thesis
    using n by (simp add: round2_def)
qed

lemma tenths_discount:
  assumes "p \<in> \<int>"
  shows "tenths (apply_discount fp p t)"
proof -
  from assms obtain n :: int where "p = of_int n"
    by (auto elim: Ints_cases)
  then show ?thesis
    by (simp add: apply_discount_def tenths_def)
qed

lemma RATES_weekday:
  "\<exists>r m. RATES (weekday d) = Some r \<and> max_stay (r0800_1659 r) = Hours m \<and> 0 < m
     \<and> price_per_hour (r0800_1659 r) \<in> \<int> \<and> price_per_hour (r1700_2359 r) = 5
     \<and> price_one_time (r0000_0759 r) = 20"
  using weekday_range [of d] by (simp add: RATES_def)

lemma slot1_shift:
  "slot1 fp r d ds de t = t + slot1 fp r d ds de 0"
  by (simp add: slot1_def Let_def)

lemma slot3_shift:
  "slot3 fp r d ds de t = t + slot3 fp r d ds de 0"
  by (simp add: slot3_def Let_def)

lemma slot2_shift:
  assumes "max_stay (r0800_1659 r) = Hours m"
  shows "slot2 fp r d ds de t = Inr (t + amount_of (slot2 fp r d ds de 0))"
  using assms by (simp add: slot2_def slot2_fee_def Let_def amount_of_def)

lemma tenths_slot1:
  assumes "price_one_time (r0000_0759 r) = 20"
  shows "tenths (slot1 fp r d ds de 0)"
  using assms tenths_discount [of 20 fp]
  by (simp add: slot1_def Let_def tenths_0)

lemma tenths_slot3:
  assumes "price_per_hour (r1700_2359 r) = 5"
  shows "tenths (slot3 fp r d ds de 0)"
  using assms
  by (simp add: slot3_def Let_def tenths_0 tenths_discount)

lemma tenths_slot2:
  assumes "max_stay (r0800_1659 r) = Hours m" and "price_per_hour (r0800_1659 r) \<in> \<int>"
  shows "tenths (amount_of (slot2 fp r d ds de 0))"
  using assms
  by (simp add: slot2_def slot2_fee_def Let_def amount_of_def tenths_0 tenths_discount)

lemma day_charges_parts:
  assumes r: "RATES (weekday d) = Some r" and m: "max_stay (r0800_1659 r) = Hours m"
  shows "day_charges fp a l d t =
           Inr (t + slot1 fp r d (day_start a d) (day_end l d) 0
                  + amount_of (slot2 fp r d (day_start a d) (day_end l d) 0)
                  + slot3 fp r d (day_start a d) (day_end l d) 0)"
proof -
  let ?ds = "day_start a d" and ?de = "day_end l d"
  let ?t1 = "slot1 fp r d ?ds ?de t"
  have s1: "?t1 = t + slot1 fp r d ?ds ?de 0"
    by (rule slot1_shift)
  have s2: "slot2 fp r d ?ds ?de ?t1 = Inr (?t1 + amount_of (slot2 fp r d ?ds ?de 0))"
    by (rule slot2_shift [OF m])
  have s3: "slot3 fp r d ?ds ?de (?t1 + amount_of (slot2 fp r d ?ds ?de 0)) =
              ?t1 + amount_of (slot2 fp r d ?ds ?de 0) + slot3 fp r d ?ds ?de 0"
    by (rule slot3_shift)
  have "day_charges fp a l d t =
          Inr (slot3 fp r d ?ds ?de (?t1 + amount_of (slot2 fp r d ?ds ?de 0)))"
    by (simp add: day_charges_def r Let_def s2)
  also have "\<dots> = Inr (?t1 + amount_of (slot2 fp r d ?ds ?de 0) + slot3 fp r d ?ds ?de 0)"
    by (simp only: s3)
  also have "\<dots> = Inr (t + slot1 fp r d ?ds ?de 0 + amount_of (slot2 fp r d ?ds ?de 0)
                        + slot3 fp r d ?ds ?de 0)"
    using s1 by simp
  finally show ?thesis .
qed

lemma day_charges_shift:
  "day_charges fp a l d t = Inr (t + day_amount fp a l d)"
proof -
  obtain r m where r: "RATES (weekday d) = Some r" "max_stay (r0800_1659 r) = Hours m"
    using RATES_weekday [of d] by blast
  show ?thesis
    by (simp add: day_amount_def day_charges_parts [OF r] amount_of_Inr)
qed

lemma tenths_day_amount: "tenths (day_amount fp a l d)"
proof -
  obtain r m where r: "RATES (weekday d) = Some r" "max_stay (r0800_1659 r) = Hours m"
     "price_per_hour (r0800_1659 r) \<in> \<int>" "price_per_hour (r1700_2359 r) = 5"
     "price_one_time (r0000_0759 r) = 20"
    using RATES_weekday [of d] by blast
  show ?thesis
    by (simp add: day_amount_def day_charges_parts [OF r(1,2)] amount_of_Inr
        tenths_add tenths_slot1 [OF r(5)] tenths_slot2 [OF r(2,3)] tenths_slot3 [OF r(4)])
qed

lemma atLeastAtMost_int_first: "i \<le> j \<Longrightarrow> {i..j} = insert i {i + 1..j::int}"
  by auto

lemma fee_loop_sum:
  "0 \<le> cur \<Longrightarrow>
   fee_loop fp a l cur t =
     (if date l < cur then Inr t
      else if date l < MAXORDINAL then Inr (t + (\<Sum>d = cur..date l. day_amount fp a l d))
      else Inl OverflowError)"
proof (induction fp a l cur t rule: fee_loop.induct)
  case (1 fp a l cur t)
  show ?case
  proof (cases "cur \<le> date l")
    case False
    then show ?thesis by (subst fee_loop.simps) simp
  next
    case le: True
    show ?thesis
    proof (cases "cur + 1 \<le> MAXORDINAL")
      case False
      with le show ?thesis
        by (subst fee_loop.simps) (simp add: day_charges_shift)
    next
      case True
      with le "1.prems" have IH:
        "fee_loop fp a l (cur + 1) (t + day_amount fp a l cur) =
           (if date l < cur + 1 then Inr (t + day_amount fp a l cur)
            else if date l < MAXORDINAL
              then Inr (t + day_amount fp a l cur + (\<Sum>d = cur + 1..date l. day_amount fp a l d))
            else Inl OverflowError)"
        using "1.IH" [of "t + day_amount fp a l cur"] by (simp add: day_charges_shift)
      have step: "fee_loop fp a l cur t = fee_loop fp a l (cur + 1) (t + day_amount fp a l cur)"
        using le True "1.prems" by (subst fee_loop.simps) (simp add: day_charges_shift)
      show ?thesis
        unfolding step IH using le True
        by (simp add: atLeastAtMost_int_first [OF le])
    qed
  qed
qed

lemma calculate_fee_sum:
  assumes "0 < date a"
  shows "calculate_fee fp a l =
     (if date l < date a then Inr 0
      else if date l < MAXORDINAL then Inr (\<Sum>d = date a..date l. day_amount fp a l d)
      else Inl OverflowError)"
proof -
  have "round2 (\<Sum>d = date a..date l. day_amount fp a l d) = (\<Sum>d = date a..date l. day_amount fp a l d)"
    by (rule round2_tenths) (simp add: tenths_sum tenths_day_amount)
  moreover have "round2 0 = 0"
    by (simp add: round2_tenths tenths_0)
  ultimately show ?thesis
    using assms by (simp add: calculate_fee_def fee_loop_sum)
qed

lemma day_amount_parts:
  assumes "RATES (weekday d) = Some r" and "max_stay (r0800_1659 r) = Hours m"
  shows "day_amount fp a l d =
           slot1 fp r d (day_start a d) (day_end l d) 0
           + amount_of (slot2 fp r d (day_start a d) (day_end l d) 0)
           + slot3 fp r d (day_start a d) (day_end l d) 0"
  by (simp add: day_amount_def day_charges_parts [OF assms] amount_of_Inr)

lemmas clock_defs = time_hm_def time_hms_def time_min_def time_max_def combine_def

lemmas cmp_defs = dt_less_def dt_max_def dt_min_def day_start_def day_end_def

lemmas slot_defs = slot1_def slot2_def slot2_fee_def slot3_def Let_def apply_discount_def








lemma whole_minute_in_window:
  assumes "0 \<le> t" and "t \<le> time_max" and "t mod 60000000 = 0"
  shows "in_slot1 t \<or> in_slot2 t \<or> in_slot3 t"
proof -
  define k where "k = t div 60000000"
  have t: "t = 60000000 * k"
    using assms(3) unfolding k_def by (simp add: mod_eq_0_iff_dvd)
  have lo: "0 \<le> k" and hi: "k \<le> 1439"
    using assms(1,2) unfolding t by (simp_all add: clock_defs)
  consider "k \<le> 479" | "480 \<le> k" "k \<le> 1019" | "1020 \<le> k"
    by linarith
  then show ?thesis
  proof cases
    case 1
    with lo have "in_slot1 t"
      unfolding t by (simp add: in_slot1_def clock_defs)
    then show ?thesis by simp
  next
    case 2
    then have "in_slot2 t"
      unfolding t by (simp add: in_slot2_def clock_defs)
    then show ?thesis by simp
  next
    case 3
    with hi have "in_slot3 t"
      unfolding t by (simp add: in_slot3_def clock_defs)
    then show ?thesis by simp
  qed
qed

section \<open>The rate table (C2)\<close>

text \<open>
  C2. The table the loop reads is exactly this: on each of Monday to Friday (weekdays 0 to
  4) a flat 20.00 for 00:00-07:59, 10.00 an hour with a cap of 2 hours for 08:00-16:59 and
  5.00 an hour without a cap for 17:00-23:59; on Saturday (5) the middle slot is 3.00 an
  hour with a cap of 4 hours, on Sunday (6) 2.00 an hour with a cap of 8 hours; flat fee and
  evening rate are the same on all seven days. The weekday of every date is one of these
  seven keys, so the lookup of the loop always finds its entry.
\<close>

theorem rate_table:
  "map RATES [0, 1, 2, 3, 4] =
     replicate 5 (Some \<lparr>r0800_1659 = \<lparr>max_stay = Hours 2, price_per_hour = 10\<rparr>,
                         r1700_2359 = \<lparr>max_stay = UpToMidnight, price_per_hour = 5\<rparr>,
                         r0000_0759 = \<lparr>price_one_time = 20\<rparr>\<rparr>)
   \<and> RATES 5 = Some \<lparr>r0800_1659 = \<lparr>max_stay = Hours 4, price_per_hour = 3\<rparr>,
                      r1700_2359 = \<lparr>max_stay = UpToMidnight, price_per_hour = 5\<rparr>,
                      r0000_0759 = \<lparr>price_one_time = 20\<rparr>\<rparr>
   \<and> RATES 6 = Some \<lparr>r0800_1659 = \<lparr>max_stay = Hours 8, price_per_hour = 2\<rparr>,
                      r1700_2359 = \<lparr>max_stay = UpToMidnight, price_per_hour = 5\<rparr>,
                      r0000_0759 = \<lparr>price_one_time = 20\<rparr>\<rparr>
   \<and> 0 \<le> weekday d \<and> weekday d \<le> 6 \<and> (\<exists>r. RATES (weekday d) = Some r)"
  using weekday_range [of d] by (simp add: RATES_def numeral_eq_Suc)

section \<open>Overage pricing (C1)\<close>

text \<open>
  C1. In the hourly slot with a cap (08:00-16:59), when the rounded number of hours of the
  overlap exceeds the cap \<open>m\<close> of the day, the fee of the slot (the amount handed to the
  discount) is \<open>m\<close> times the hourly price plus the hours beyond \<open>m\<close> at twice the hourly
  price. In particular the stay of a non-frequent parker from 2024-01-01 08:00 to
  2024-01-01 12:00, a Monday, is 4 hours in that slot and costs 60.00.
\<close>

theorem overage_fee:
  assumes "RATES (weekday current_day) = Some rates"
    and "max_stay (r0800_1659 rates) = Hours m"
    and "overlap_start = dt_max day_start_dt (combine current_day (time_hm 8 0))"
    and "overlap_end = dt_min day_end_dt (combine current_day (time_hm 16 59))"
    and "dt_less overlap_start overlap_end"
    and "m < hours_in_slot overlap_start overlap_end"
  shows "slot2 fp rates current_day day_start_dt day_end_dt total_fee =
           Inr (total_fee + apply_discount fp
                  (of_int m * price_per_hour (r0800_1659 rates)
                   + of_int (hours_in_slot overlap_start overlap_end - m)
                       * price_per_hour (r0800_1659 rates) * 2)
                  (combine current_day (time_hm 8 0)))
         \<and> weekday (ymd2ord 2024 1 1) = 0
         \<and> calculate_fee False (mk_datetime 2024 1 1 8 0) (mk_datetime 2024 1 1 12 0) = Inr 60"
proof -
  have "0 < m"
    using assms(1,2) weekday_range [of current_day]
    by (auto simp: RATES_def split: if_splits)
  then have pos: "0 < hours_in_slot overlap_start overlap_end"
    using assms(6) by simp
  have monday: "weekday (ymd2ord 2024 1 1) = 0"
    by code_simp
  have example: "calculate_fee False (mk_datetime 2024 1 1 8 0) (mk_datetime 2024 1 1 12 0) = Inr 60"
    by code_simp
  have "slot2 fp rates current_day day_start_dt day_end_dt total_fee =
           Inr (total_fee + apply_discount fp
                  (of_int m * price_per_hour (r0800_1659 rates)
                   + of_int (hours_in_slot overlap_start overlap_end - m)
                       * price_per_hour (r0800_1659 rates) * 2)
                  (combine current_day (time_hm 8 0)))"
    using assms(2,5,6) pos
    by (simp add: slot2_def slot2_fee_def Let_def assms(3) [symmetric] assms(4) [symmetric])
  with monday example show ?thesis
    by simp
qed

theorem overage_fee_witness:
  "RATES (weekday (ymd2ord 2024 1 1)) =
     Some \<lparr>r0800_1659 = \<lparr>max_stay = Hours 2, price_per_hour = 10\<rparr>,
           r1700_2359 = \<lparr>max_stay = UpToMidnight, price_per_hour = 5\<rparr>,
           r0000_0759 = \<lparr>price_one_time = 20\<rparr>\<rparr>
   \<and> dt_less (mk_datetime 2024 1 1 8 0) (mk_datetime 2024 1 1 12 0)
   \<and> 2 < hours_in_slot (mk_datetime 2024 1 1 8 0) (mk_datetime 2024 1 1 12 0)
   \<and> slot2 False
        \<lparr>r0800_1659 = \<lparr>max_stay = Hours 2, price_per_hour = 10\<rparr>,
         r1700_2359 = \<lparr>max_stay = UpToMidnight, price_per_hour = 5\<rparr>,
         r0000_0759 = \<lparr>price_one_time = 20\<rparr>\<rparr>
        (ymd2ord 2024 1 1) (mk_datetime 2024 1 1 8 0) (mk_datetime 2024 1 1 12 0) 0
      = Inr (2 * 10 + 2 * 10 * 2)"
proof -
  let ?r = "\<lparr>r0800_1659 = \<lparr>max_stay = Hours 2, price_per_hour = 10\<rparr>,
             r1700_2359 = \<lparr>max_stay = UpToMidnight, price_per_hour = 5\<rparr>,
             r0000_0759 = \<lparr>price_one_time = 20\<rparr>\<rparr>"
  let ?a = "mk_datetime 2024 1 1 8 0" and ?l = "mk_datetime 2024 1 1 12 0"
  have h1: "RATES (weekday (ymd2ord 2024 1 1)) = Some ?r"
    by code_simp
  have h2: "max_stay (r0800_1659 ?r) = Hours 2"
    by simp
  have h3: "?a = dt_max ?a (combine (ymd2ord 2024 1 1) (time_hm 8 0))"
    by code_simp
  have h4: "?l = dt_min ?l (combine (ymd2ord 2024 1 1) (time_hm 16 59))"
    by code_simp
  have h5: "dt_less ?a ?l"
    by code_simp
  have hours: "hours_in_slot ?a ?l = 4"
    by code_simp
  have h6: "2 < hours_in_slot ?a ?l"
    by (simp add: hours)
  show ?thesis
    using overage_fee [OF h1 h2 h3 h4 h5 h6, of False 0] h1 h5 h6
    by (simp add: hours apply_discount_def)
qed

section \<open>A stay across midnight (C3)\<close>

text \<open>
  C3. For a non-frequent parker a stay from 23:00 on a Friday to 01:00 on the Saturday
  after it costs 25.00: the Friday adds 1 hour of the evening slot at 5.00, the Saturday
  adds the flat fee 20.00 of its 00:00-07:59 slot.
\<close>

theorem friday_to_saturday:
  assumes "weekday d = 4" and "0 < d" and "d + 1 \<le> MAXORDINAL"
  shows "calculate_fee False (combine d (time_hm 23 0)) (combine (d + 1) (time_hm 1 0)) = Inr 25
     \<and> day_amount False (combine d (time_hm 23 0)) (combine (d + 1) (time_hm 1 0)) d = 1 * 5
     \<and> day_amount False (combine d (time_hm 23 0)) (combine (d + 1) (time_hm 1 0)) (d + 1) = 20"
proof -
  let ?a = "combine d (time_hm 23 0)" and ?l = "combine (d + 1) (time_hm 1 0)"
  have sat: "weekday (d + 1) = 5"
    using assms(1) unfolding weekday_def by presburger
  have lt: "d + 1 < MAXORDINAL"
    using assms(1,3) unfolding weekday_def MAXORDINAL_def by presburger
  have fri: "day_amount False ?a ?l d = 5"
    unfolding day_amount_def day_charges_def
    by (simp add: assms(1) RATES_def slot_defs clock_defs cmp_defs
        hours_in_slot_eq microseconds_between_def amount_of_def)
  have sa: "day_amount False ?a ?l (d + 1) = 20"
    unfolding day_amount_def day_charges_def
    by (simp add: sat RATES_def slot_defs clock_defs cmp_defs
        hours_in_slot_eq microseconds_between_def amount_of_def)
  have two_days: "{d..d + 1} = {d, d + 1}"
    by auto
  have "calculate_fee False ?a ?l = Inr (day_amount False ?a ?l d + day_amount False ?a ?l (d + 1))"
    using assms(2) lt by (simp add: calculate_fee_sum combine_def two_days)
  then show ?thesis
    by (simp add: fri sa)
qed

theorem friday_to_saturday_witness:
  "weekday (ymd2ord 2024 1 5) = 4 \<and> 0 < ymd2ord 2024 1 5 \<and> ymd2ord 2024 1 5 + 1 \<le> MAXORDINAL
   \<and> ymd2ord 2024 1 5 + 1 = ymd2ord 2024 1 6
   \<and> calculate_fee False (mk_datetime 2024 1 5 23 0) (mk_datetime 2024 1 6 1 0) = Inr 25"
proof -
  have h1: "weekday (ymd2ord 2024 1 5) = 4"
    by code_simp
  have h2: "0 < ymd2ord 2024 1 5"
    by code_simp
  have h3: "ymd2ord 2024 1 5 + 1 \<le> MAXORDINAL"
    by code_simp
  have next_day: "ymd2ord 2024 1 5 + 1 = ymd2ord 2024 1 6"
    by code_simp
  show ?thesis
    using friday_to_saturday [OF h1 h2 h3] h1 h2 h3 next_day
    by (simp add: mk_datetime_def)
qed

section \<open>The frequent-parker discount (C4)\<close>

text \<open>
  C4. Without the frequent-parker flag every slot fee is unchanged. With the flag each
  slot is discounted on its own, at one fixed instant of the slot: the flat slot at 01:00
  and the evening slot at 17:00, where the factor is 0.5 (time of day at or after 17:00 or
  before 08:00), the daytime slot at 08:00, where the factor is 0.9 (any other time of
  day). So what a slot adds to the total with the flag is 0.5, 0.9 and 0.5 times what it
  adds without.
\<close>

theorem discount_per_slot:
  "apply_discount False price t = price
   \<and> apply_discount True price t =
       (if time_hm 17 0 \<le> time t \<or> time t < time_hm 8 0 then price * (1 / 2)
        else price * (9 / 10))
   \<and> apply_discount True price (combine d (time_hm 1 0)) = price * (1 / 2)
   \<and> apply_discount True price (combine d (time_hm 8 0)) = price * (9 / 10)
   \<and> apply_discount True price (combine d (time_hm 17 0)) = price * (1 / 2)
   \<and> slot1 fp r d ds de total_fee =
       total_fee + apply_discount fp (slot1 False r d ds de total_fee - total_fee) (combine d (time_hm 1 0))
   \<and> (slot2 False r d ds de total_fee = Inr x \<longrightarrow>
        slot2 fp r d ds de total_fee =
          Inr (total_fee + apply_discount fp (x - total_fee) (combine d (time_hm 8 0))))
   \<and> slot3 fp r d ds de total_fee =
       total_fee + apply_discount fp (slot3 False r d ds de total_fee - total_fee) (combine d (time_hm 17 0))"
proof -
  have s2: "slot2 False r d ds de total_fee = Inr x \<longrightarrow>
        slot2 fp r d ds de total_fee =
          Inr (total_fee + apply_discount fp (x - total_fee) (combine d (time_hm 8 0)))"
    by (auto simp: slot2_def slot2_fee_def Let_def apply_discount_def clock_defs
        split: cap.splits if_splits)
  have s1: "slot1 fp r d ds de total_fee =
       total_fee + apply_discount fp (slot1 False r d ds de total_fee - total_fee) (combine d (time_hm 1 0))"
    by (simp add: slot1_def Let_def apply_discount_def clock_defs)
  have s3: "slot3 fp r d ds de total_fee =
       total_fee + apply_discount fp (slot3 False r d ds de total_fee - total_fee) (combine d (time_hm 17 0))"
    by (simp add: slot3_def Let_def apply_discount_def clock_defs)
  have reps: "apply_discount True price (combine d (time_hm 1 0)) = price * (1 / 2)
   \<and> apply_discount True price (combine d (time_hm 8 0)) = price * (9 / 10)
   \<and> apply_discount True price (combine d (time_hm 17 0)) = price * (1 / 2)"
    by (simp add: apply_discount_def clock_defs)
  have rule: "apply_discount False price t = price
   \<and> apply_discount True price t =
       (if time_hm 17 0 \<le> time t \<or> time t < time_hm 8 0 then price * (1 / 2)
        else price * (9 / 10))"
    by (simp add: apply_discount_def)
  from rule reps s1 s2 s3 show ?thesis
    by blast
qed

theorem discount_per_slot_witness:
  "slot2 False
      \<lparr>r0800_1659 = \<lparr>max_stay = Hours 2, price_per_hour = 10\<rparr>,
       r1700_2359 = \<lparr>max_stay = UpToMidnight, price_per_hour = 5\<rparr>,
       r0000_0759 = \<lparr>price_one_time = 20\<rparr>\<rparr>
      (ymd2ord 2024 1 1) (mk_datetime 2024 1 1 8 0) (mk_datetime 2024 1 1 12 0) 0 = Inr 60
   \<and> slot2 True
      \<lparr>r0800_1659 = \<lparr>max_stay = Hours 2, price_per_hour = 10\<rparr>,
       r1700_2359 = \<lparr>max_stay = UpToMidnight, price_per_hour = 5\<rparr>,
       r0000_0759 = \<lparr>price_one_time = 20\<rparr>\<rparr>
      (ymd2ord 2024 1 1) (mk_datetime 2024 1 1 8 0) (mk_datetime 2024 1 1 12 0) 0 = Inr 54
   \<and> calculate_fee True (mk_datetime 2024 1 1 8 0) (mk_datetime 2024 1 1 12 0) = Inr 54"
proof -
  let ?r = "\<lparr>r0800_1659 = \<lparr>max_stay = Hours 2, price_per_hour = 10\<rparr>,
             r1700_2359 = \<lparr>max_stay = UpToMidnight, price_per_hour = 5\<rparr>,
             r0000_0759 = \<lparr>price_one_time = 20\<rparr>\<rparr>"
  let ?a = "mk_datetime 2024 1 1 8 0" and ?l = "mk_datetime 2024 1 1 12 0"
  have h: "slot2 False ?r (ymd2ord 2024 1 1) ?a ?l 0 = Inr 60"
    by code_simp
  have whole: "calculate_fee True ?a ?l = Inr 54"
    by code_simp
  have "slot2 True ?r (ymd2ord 2024 1 1) ?a ?l 0 =
          Inr (0 + apply_discount True (60 - 0) (combine (ymd2ord 2024 1 1) (time_hm 8 0)))"
    using discount_per_slot [where fp = True and r = ?r and d = "ymd2ord 2024 1 1"
        and ds = ?a and de = ?l and total_fee = 0 and x = 60] h
    by blast
  then have "slot2 True ?r (ymd2ord 2024 1 1) ?a ?l 0 = Inr 54"
    by (simp add: apply_discount_def clock_defs)
  with h whole show ?thesis
    by blast
qed

section \<open>Rounding of half hours (C5, C6)\<close>

text \<open>
  C5, as the code has it. An overlap of exactly 30 minutes with an hourly slot is half an
  hour, which \<^verbatim>\<open>round\<close> takes to the even neighbour 0: the hour count is 0 and the slot
  adds nothing. The stay of a non-frequent parker on Monday 2024-01-01 from 08:00 to 08:30
  costs 0.00.
\<close>

theorem half_hour_rounds_to_zero:
  assumes "microseconds_between overlap_start overlap_end = 30 * 60 * 1000000"
  shows "hours_in_slot overlap_start overlap_end = 0
     \<and> (overlap_start = dt_max ds (combine d (time_hm 8 0))
          \<and> overlap_end = dt_min de (combine d (time_hm 16 59))
        \<longrightarrow> slot2 fp r d ds de total_fee = Inr total_fee)
     \<and> (overlap_start = dt_max ds (combine d (time_hm 17 0))
          \<and> overlap_end = dt_min de (combine d (time_hms 23 59 59))
        \<longrightarrow> slot3 fp r d ds de total_fee = total_fee)
     \<and> calculate_fee False (mk_datetime 2024 1 1 8 0) (mk_datetime 2024 1 1 8 30) = Inr 0"
proof -
  have zero: "hours_in_slot overlap_start overlap_end = 0"
    using assms by (simp add: hours_in_slot_eq)
  have example: "calculate_fee False (mk_datetime 2024 1 1 8 0) (mk_datetime 2024 1 1 8 30) = Inr 0"
    by code_simp
  from zero example show ?thesis
    by (auto simp: slot2_def slot3_def Let_def)
qed

theorem half_hour_rounds_to_zero_witness:
  "microseconds_between (mk_datetime 2024 1 1 8 0) (mk_datetime 2024 1 1 8 30) = 30 * 60 * 1000000
   \<and> hours_in_slot (mk_datetime 2024 1 1 8 0) (mk_datetime 2024 1 1 8 30) = 0
   \<and> slot2 False
        \<lparr>r0800_1659 = \<lparr>max_stay = Hours 2, price_per_hour = 10\<rparr>,
         r1700_2359 = \<lparr>max_stay = UpToMidnight, price_per_hour = 5\<rparr>,
         r0000_0759 = \<lparr>price_one_time = 20\<rparr>\<rparr>
        (ymd2ord 2024 1 1) (mk_datetime 2024 1 1 8 0) (mk_datetime 2024 1 1 8 30) 0 = Inr 0"
proof -
  let ?a = "mk_datetime 2024 1 1 8 0" and ?l = "mk_datetime 2024 1 1 8 30"
  have h: "microseconds_between ?a ?l = 30 * 60 * 1000000"
    by code_simp
  have s: "?a = dt_max ?a (combine (ymd2ord 2024 1 1) (time_hm 8 0))"
    by code_simp
  have e: "?l = dt_min ?l (combine (ymd2ord 2024 1 1) (time_hm 16 59))"
    by code_simp
  show ?thesis
    using half_hour_rounds_to_zero [OF h, of ?a "ymd2ord 2024 1 1" ?l] h s e
    by blast
qed

theorem half_hour_counterexample:
  "hours_in_slot (mk_datetime 2024 1 1 8 0) (mk_datetime 2024 1 1 8 30) \<noteq> 1
   \<and> calculate_fee False (mk_datetime 2024 1 1 8 0) (mk_datetime 2024 1 1 8 30) \<noteq> Inr 10"
proof -
  have "hours_in_slot (mk_datetime 2024 1 1 8 0) (mk_datetime 2024 1 1 8 30) = 0"
    by code_simp
  moreover have "calculate_fee False (mk_datetime 2024 1 1 8 0) (mk_datetime 2024 1 1 8 30) = Inr 0"
    by code_simp
  ultimately show ?thesis
    by simp
qed

text \<open>
  C6, as the code has it. An overlap of exactly 90 minutes with an hourly slot is one hour
  and a half, which \<^verbatim>\<open>round\<close> takes to the even neighbour 2: the hour count is 2. Two
  hours are within the cap of every day, so the daytime slot charges twice its hourly
  price, and so does the evening slot. The stay of a non-frequent parker on Monday
  2024-01-01 from 08:00 to 09:30 costs 20.00.
\<close>

theorem ninety_minutes_round_to_two:
  assumes "dt_less overlap_start overlap_end"
    and "microseconds_between overlap_start overlap_end = 90 * 60 * 1000000"
    and "RATES (weekday d) = Some r"
  shows "hours_in_slot overlap_start overlap_end = 2
     \<and> (overlap_start = dt_max ds (combine d (time_hm 8 0))
          \<and> overlap_end = dt_min de (combine d (time_hm 16 59))
        \<longrightarrow> slot2 fp r d ds de total_fee =
              Inr (total_fee + apply_discount fp (2 * price_per_hour (r0800_1659 r))
                             (combine d (time_hm 8 0))))
     \<and> (overlap_start = dt_max ds (combine d (time_hm 17 0))
          \<and> overlap_end = dt_min de (combine d (time_hms 23 59 59))
        \<longrightarrow> slot3 fp r d ds de total_fee =
              total_fee + apply_discount fp (2 * price_per_hour (r1700_2359 r))
                        (combine d (time_hm 17 0)))
     \<and> calculate_fee False (mk_datetime 2024 1 1 8 0) (mk_datetime 2024 1 1 9 30) = Inr 20"
proof -
  have two: "hours_in_slot overlap_start overlap_end = 2"
    using assms(2) by (simp add: hours_in_slot_eq)
  obtain m where m: "max_stay (r0800_1659 r) = Hours m" "2 \<le> m"
    using assms(3) weekday_range [of d] by (auto simp: RATES_def split: if_splits)
  have example: "calculate_fee False (mk_datetime 2024 1 1 8 0) (mk_datetime 2024 1 1 9 30) = Inr 20"
    by code_simp
  from two m assms(1) example show ?thesis
    by (auto simp: slot2_def slot2_fee_def slot3_def Let_def)
qed

theorem ninety_minutes_round_to_two_witness:
  "dt_less (mk_datetime 2024 1 1 8 0) (mk_datetime 2024 1 1 9 30)
   \<and> microseconds_between (mk_datetime 2024 1 1 8 0) (mk_datetime 2024 1 1 9 30) = 90 * 60 * 1000000
   \<and> hours_in_slot (mk_datetime 2024 1 1 8 0) (mk_datetime 2024 1 1 9 30) = 2
   \<and> slot2 False
        \<lparr>r0800_1659 = \<lparr>max_stay = Hours 2, price_per_hour = 10\<rparr>,
         r1700_2359 = \<lparr>max_stay = UpToMidnight, price_per_hour = 5\<rparr>,
         r0000_0759 = \<lparr>price_one_time = 20\<rparr>\<rparr>
        (ymd2ord 2024 1 1) (mk_datetime 2024 1 1 8 0) (mk_datetime 2024 1 1 9 30) 0 = Inr 20"
proof -
  let ?r = "\<lparr>r0800_1659 = \<lparr>max_stay = Hours 2, price_per_hour = 10\<rparr>,
             r1700_2359 = \<lparr>max_stay = UpToMidnight, price_per_hour = 5\<rparr>,
             r0000_0759 = \<lparr>price_one_time = 20\<rparr>\<rparr>"
  let ?a = "mk_datetime 2024 1 1 8 0" and ?l = "mk_datetime 2024 1 1 9 30"
  have h1: "dt_less ?a ?l"
    by code_simp
  have h2: "microseconds_between ?a ?l = 90 * 60 * 1000000"
    by code_simp
  have h3: "RATES (weekday (ymd2ord 2024 1 1)) = Some ?r"
    by code_simp
  have s: "?a = dt_max ?a (combine (ymd2ord 2024 1 1) (time_hm 8 0))"
    by code_simp
  have e: "?l = dt_min ?l (combine (ymd2ord 2024 1 1) (time_hm 16 59))"
    by code_simp
  have "hours_in_slot ?a ?l = 2
      \<and> slot2 False ?r (ymd2ord 2024 1 1) ?a ?l 0 =
              Inr (0 + apply_discount False (2 * price_per_hour (r0800_1659 ?r))
                             (combine (ymd2ord 2024 1 1) (time_hm 8 0)))"
    using ninety_minutes_round_to_two [OF h1 h2 h3, of ?a ?l False 0] s e
    by blast
  then show ?thesis
    using h1 h2 by (simp add: apply_discount_def)
qed

theorem ninety_minutes_counterexample:
  "hours_in_slot (mk_datetime 2024 1 1 8 0) (mk_datetime 2024 1 1 9 30) \<noteq> 1
   \<and> calculate_fee False (mk_datetime 2024 1 1 8 0) (mk_datetime 2024 1 1 9 30) \<noteq> Inr 10"
proof -
  have "hours_in_slot (mk_datetime 2024 1 1 8 0) (mk_datetime 2024 1 1 9 30) = 2"
    by code_simp
  moreover have "calculate_fee False (mk_datetime 2024 1 1 8 0) (mk_datetime 2024 1 1 9 30) = Inr 20"
    by code_simp
  ultimately show ?thesis
    by simp
qed

section \<open>A stay of length zero (C10)\<close>

text \<open>
  C10, as the code has it. Called with the departure equal to the arrival, at a time of
  day of 07:59 or earlier and on a date before 9999-12-31, the calculator raises nothing
  and returns the flat fee of the day, 20.00, or 10.00 for a frequent parker: the flat
  slot's test holds for the touch, and the two hourly slots, which need an overlap of
  positive length, add nothing. (On 9999-12-31, the last date there is, moving on to the
  next day after the iteration raises.)
\<close>

theorem zero_length_stay:
  assumes "valid_datetime x" and "time x \<le> time_hm 7 59" and "date x < MAXORDINAL"
    and "RATES (weekday (date x)) = Some r"
  shows "calculate_fee fp x x = Inr (if fp then 10 else 20)
     \<and> slot1 fp r (date x) (day_start x (date x)) (day_end x (date x)) total_fee =
         total_fee + (if fp then 10 else 20)
     \<and> slot2 fp r (date x) (day_start x (date x)) (day_end x (date x)) total_fee = Inr total_fee
     \<and> slot3 fp r (date x) (day_start x (date x)) (day_end x (date x)) total_fee = total_fee"
proof -
  have t: "0 \<le> time x" "time x \<le> 28740000000" and d: "0 < date x"
    using assms(1,2) by (simp_all add: valid_datetime_def clock_defs)
  have ds: "day_start x (date x) = x" and de: "day_end x (date x) = x"
    using t by (simp_all add: cmp_defs clock_defs)
  obtain m where r: "max_stay (r0800_1659 r) = Hours m" "price_one_time (r0000_0759 r) = 20"
    using assms(4) weekday_range [of "date x"] by (auto simp: RATES_def split: if_splits)
  have s1: "slot1 fp r (date x) x x total_fee = total_fee + (if fp then 10 else 20)" for total_fee
    using t r by (simp add: slot1_def Let_def apply_discount_def clock_defs)
  have s2: "slot2 fp r (date x) x x total_fee = Inr total_fee" for total_fee
    using t by (simp add: slot2_def Let_def cmp_defs clock_defs)
  have s3: "slot3 fp r (date x) x x total_fee = total_fee" for total_fee
    using t by (simp add: slot3_def Let_def cmp_defs clock_defs)
  have "day_amount fp x x (date x) = (if fp then 10 else 20)"
    by (simp add: day_amount_parts [OF assms(4) r(1)] ds de s1 s2 s3 amount_of_Inr)
  then have "calculate_fee fp x x = Inr (if fp then 10 else 20)"
    using d assms(3) by (simp add: calculate_fee_sum)
  then show ?thesis
    by (simp add: ds de s1 s2 s3)
qed

theorem zero_length_stay_witness:
  "valid_datetime (mk_datetime 2024 1 1 7 59)
   \<and> time (mk_datetime 2024 1 1 7 59) \<le> time_hm 7 59
   \<and> date (mk_datetime 2024 1 1 7 59) < MAXORDINAL
   \<and> calculate_fee True (mk_datetime 2024 1 1 7 59) (mk_datetime 2024 1 1 7 59) = Inr 10
   \<and> calculate_fee False (mk_datetime 2024 1 1 7 59) (mk_datetime 2024 1 1 7 59) = Inr 20"
proof -
  let ?x = "mk_datetime 2024 1 1 7 59"
  have h1: "valid_datetime ?x"
    by code_simp
  have h2: "time ?x \<le> time_hm 7 59"
    by code_simp
  have h3: "date ?x < MAXORDINAL"
    by code_simp
  have h4: "RATES (weekday (date ?x)) =
      Some \<lparr>r0800_1659 = \<lparr>max_stay = Hours 2, price_per_hour = 10\<rparr>,
            r1700_2359 = \<lparr>max_stay = UpToMidnight, price_per_hour = 5\<rparr>,
            r0000_0759 = \<lparr>price_one_time = 20\<rparr>\<rparr>"
    by code_simp
  show ?thesis
    using zero_length_stay [OF h1 h2 h3 h4, of True] zero_length_stay [OF h1 h2 h3 h4, of False]
      h1 h2 h3
    by simp
qed

theorem zero_length_stay_counterexample:
  "valid_datetime (mk_datetime 9999 12 31 7 0)
   \<and> time (mk_datetime 9999 12 31 7 0) \<le> time_hm 7 59
   \<and> calculate_fee False (mk_datetime 9999 12 31 7 0) (mk_datetime 9999 12 31 7 0)
       = Inl OverflowError
   \<and> calculate_fee True (mk_datetime 9999 12 31 7 0) (mk_datetime 9999 12 31 7 0)
       = Inl OverflowError"
  by code_simp

section \<open>The flat fee of a day (C7)\<close>



section \<open>Decomposition by day (C9)\<close>



section \<open>The windows of the three slots (C8)\<close>

text \<open>
  C8, as the code has it. The windows the three slots charge for are the closed clock
  intervals 00:00-07:59, 08:00-16:59 and 17:00-23:59:59: the flat slot is charged exactly
  when some instant of the day's portion lies in the first, and the hours of the two hourly
  slots are measured on the part of the portion inside the second and the third. The
  windows are pairwise disjoint, so an instant falls within at most one of them, and a
  portion inside one window is charged by that slot alone. Every whole minute of the day
  falls within exactly one window. The windows do not cover the day: the instants strictly
  between 07:59 and 08:00, strictly between 16:59 and 17:00 and after 23:59:59 fall within
  none, and a portion inside such a gap is charged nothing.
\<close>

theorem slot_windows:
  assumes "date ds = d" and "date de = d"
  shows "(in_slot1 t \<longrightarrow> \<not> in_slot2 t \<and> \<not> in_slot3 t) \<and> (in_slot2 t \<longrightarrow> \<not> in_slot3 t)
     \<and> (in_slot1 t \<or> in_slot2 t \<or> in_slot3 t) =
         (0 \<le> t \<and> t \<le> time_hms 23 59 59
          \<and> \<not> (time_hm 7 59 < t \<and> t < time_hm 8 0)
          \<and> \<not> (time_hm 16 59 < t \<and> t < time_hm 17 0))
     \<and> (0 \<le> t \<and> t \<le> time_max \<and> t mod 60000000 = 0 \<longrightarrow>
          in_slot1 t \<or> in_slot2 t \<or> in_slot3 t)
     \<and> (slot1 fp r d ds de total_fee =
          (if \<exists>u. time ds \<le> u \<and> u \<le> time de \<and> in_slot1 u
           then total_fee + apply_discount fp (price_one_time (r0000_0759 r))
                              (combine d (time_hm 1 0))
           else total_fee))
     \<and> (dt_less (dt_max ds (combine d (time_hm 8 0))) (dt_min de (combine d (time_hm 16 59)))
          \<longrightarrow> microseconds_between (dt_max ds (combine d (time_hm 8 0)))
                (dt_min de (combine d (time_hm 16 59)))
              = min (time de) (time_hm 16 59) - max (time ds) (time_hm 8 0))
     \<and> (dt_less (dt_max ds (combine d (time_hm 17 0))) (dt_min de (combine d (time_hms 23 59 59)))
          \<longrightarrow> microseconds_between (dt_max ds (combine d (time_hm 17 0)))
                (dt_min de (combine d (time_hms 23 59 59)))
              = min (time de) (time_hms 23 59 59) - max (time ds) (time_hm 17 0))
     \<and> (in_slot1 (time ds) \<and> in_slot1 (time de) \<longrightarrow>
          slot2 fp r d ds de total_fee = Inr total_fee \<and> slot3 fp r d ds de total_fee = total_fee)
     \<and> (in_slot2 (time ds) \<and> in_slot2 (time de) \<longrightarrow>
          slot1 fp r d ds de total_fee = total_fee \<and> slot3 fp r d ds de total_fee = total_fee)
     \<and> (in_slot3 (time ds) \<and> in_slot3 (time de) \<longrightarrow>
          slot1 fp r d ds de total_fee = total_fee \<and> slot2 fp r d ds de total_fee = Inr total_fee)
     \<and> ((time_hm 7 59 < time ds \<and> time de < time_hm 8 0)
          \<or> (time_hm 16 59 < time ds \<and> time de < time_hm 17 0)
          \<or> time_hms 23 59 59 < time ds \<longrightarrow>
          slot1 fp r d ds de total_fee = total_fee \<and> slot2 fp r d ds de total_fee = Inr total_fee
          \<and> slot3 fp r d ds de total_fee = total_fee)"
proof -
  have disjoint: "(in_slot1 t \<longrightarrow> \<not> in_slot2 t \<and> \<not> in_slot3 t) \<and> (in_slot2 t \<longrightarrow> \<not> in_slot3 t)"
    by (simp add: in_slot1_def in_slot2_def in_slot3_def clock_defs)
  have cover: "(in_slot1 t \<or> in_slot2 t \<or> in_slot3 t) =
         (0 \<le> t \<and> t \<le> time_hms 23 59 59
          \<and> \<not> (time_hm 7 59 < t \<and> t < time_hm 8 0)
          \<and> \<not> (time_hm 16 59 < t \<and> t < time_hm 17 0))"
    by (auto simp: in_slot1_def in_slot2_def in_slot3_def clock_defs)
  have minutes: "0 \<le> t \<and> t \<le> time_max \<and> t mod 60000000 = 0 \<longrightarrow>
          in_slot1 t \<or> in_slot2 t \<or> in_slot3 t"
  proof (intro impI)
    assume "0 \<le> t \<and> t \<le> time_max \<and> t mod 60000000 = 0"
    then show "in_slot1 t \<or> in_slot2 t \<or> in_slot3 t"
      by (intro whole_minute_in_window) simp_all
  qed
  have touch: "(max (time ds) (time_hm 0 0) \<le> min (time de) (time_hm 7 59)) =
                 (\<exists>u. time ds \<le> u \<and> u \<le> time de \<and> in_slot1 u)"
  proof
    assume "max (time ds) (time_hm 0 0) \<le> min (time de) (time_hm 7 59)"
    then have "time ds \<le> max (time ds) (time_hm 0 0)
        \<and> max (time ds) (time_hm 0 0) \<le> time de \<and> in_slot1 (max (time ds) (time_hm 0 0))"
      by (simp add: in_slot1_def)
    then show "\<exists>u. time ds \<le> u \<and> u \<le> time de \<and> in_slot1 u"
      by blast
  next
    assume "\<exists>u. time ds \<le> u \<and> u \<le> time de \<and> in_slot1 u"
    then show "max (time ds) (time_hm 0 0) \<le> min (time de) (time_hm 7 59)"
      by (auto simp: in_slot1_def)
  qed
  have flat: "slot1 fp r d ds de total_fee =
          (if \<exists>u. time ds \<le> u \<and> u \<le> time de \<and> in_slot1 u
           then total_fee + apply_discount fp (price_one_time (r0000_0759 r))
                              (combine d (time_hm 1 0))
           else total_fee)"
    unfolding touch [symmetric] by (simp add: slot1_def Let_def)
  have measure2:
    "dt_less (dt_max ds (combine d (time_hm 8 0))) (dt_min de (combine d (time_hm 16 59)))
          \<longrightarrow> microseconds_between (dt_max ds (combine d (time_hm 8 0)))
                (dt_min de (combine d (time_hm 16 59)))
              = min (time de) (time_hm 16 59) - max (time ds) (time_hm 8 0)"
    using assms by (auto simp: cmp_defs clock_defs microseconds_between_def)
  have measure3:
    "dt_less (dt_max ds (combine d (time_hm 17 0))) (dt_min de (combine d (time_hms 23 59 59)))
          \<longrightarrow> microseconds_between (dt_max ds (combine d (time_hm 17 0)))
                (dt_min de (combine d (time_hms 23 59 59)))
              = min (time de) (time_hms 23 59 59) - max (time ds) (time_hm 17 0)"
    using assms by (auto simp: cmp_defs clock_defs microseconds_between_def)
  have only1: "in_slot1 (time ds) \<and> in_slot1 (time de) \<longrightarrow>
          slot2 fp r d ds de total_fee = Inr total_fee \<and> slot3 fp r d ds de total_fee = total_fee"
    using assms by (auto simp: in_slot1_def slot2_def slot3_def Let_def cmp_defs clock_defs)
  have only2: "in_slot2 (time ds) \<and> in_slot2 (time de) \<longrightarrow>
          slot1 fp r d ds de total_fee = total_fee \<and> slot3 fp r d ds de total_fee = total_fee"
    using assms by (auto simp: in_slot2_def slot1_def slot3_def Let_def cmp_defs clock_defs)
  have only3: "in_slot3 (time ds) \<and> in_slot3 (time de) \<longrightarrow>
          slot1 fp r d ds de total_fee = total_fee \<and> slot2 fp r d ds de total_fee = Inr total_fee"
    using assms by (auto simp: in_slot3_def slot1_def slot2_def Let_def cmp_defs clock_defs)
  have gap1: "(time_hm 7 59 < time ds \<and> time de < time_hm 8 0)
          \<or> (time_hm 16 59 < time ds \<and> time de < time_hm 17 0)
          \<or> time_hms 23 59 59 < time ds \<longrightarrow> slot1 fp r d ds de total_fee = total_fee"
    by (auto simp: slot1_def Let_def clock_defs)
  have gap2: "(time_hm 7 59 < time ds \<and> time de < time_hm 8 0)
          \<or> (time_hm 16 59 < time ds \<and> time de < time_hm 17 0)
          \<or> time_hms 23 59 59 < time ds \<longrightarrow> slot2 fp r d ds de total_fee = Inr total_fee"
    using assms by (auto simp: slot2_def Let_def cmp_defs clock_defs)
  have gap3: "(time_hm 7 59 < time ds \<and> time de < time_hm 8 0)
          \<or> (time_hm 16 59 < time ds \<and> time de < time_hm 17 0)
          \<or> time_hms 23 59 59 < time ds \<longrightarrow> slot3 fp r d ds de total_fee = total_fee"
    using assms by (auto simp: slot3_def Let_def cmp_defs clock_defs)
  have gaps: "(time_hm 7 59 < time ds \<and> time de < time_hm 8 0)
          \<or> (time_hm 16 59 < time ds \<and> time de < time_hm 17 0)
          \<or> time_hms 23 59 59 < time ds \<longrightarrow>
          slot1 fp r d ds de total_fee = total_fee \<and> slot2 fp r d ds de total_fee = Inr total_fee
          \<and> slot3 fp r d ds de total_fee = total_fee"
    using gap1 gap2 gap3 by blast
  show ?thesis
    by (intro conjI disjoint [THEN conjunct1] disjoint [THEN conjunct2] cover minutes flat
        measure2 measure3 only1 only2 only3 gaps)
qed

theorem slot_windows_counterexample:
  "0 \<le> time_hms 16 59 30 \<and> time_hms 16 59 30 \<le> time_max
   \<and> time (mk_datetime 2024 1 1 15 30) \<le> time_hms 16 59 30
   \<and> time_hms 16 59 30 \<le> time (mk_datetime 2024 1 1 17 0)
   \<and> \<not> in_slot1 (time_hms 16 59 30) \<and> \<not> in_slot2 (time_hms 16 59 30)
   \<and> \<not> in_slot3 (time_hms 16 59 30)
   \<and> hours_in_slot
        (dt_max (mk_datetime 2024 1 1 15 30) (combine (ymd2ord 2024 1 1) (time_hm 8 0)))
        (dt_min (mk_datetime 2024 1 1 17 0) (combine (ymd2ord 2024 1 1) (time_hm 16 59))) = 1
   \<and> calculate_fee False (mk_datetime 2024 1 1 15 30) (mk_datetime 2024 1 1 17 0) = Inr 10"
  by code_simp

theorem slot_windows_witness:
  "date (mk_datetime 2024 1 1 9 0) = ymd2ord 2024 1 1
   \<and> date (mk_datetime 2024 1 1 10 0) = ymd2ord 2024 1 1
   \<and> in_slot2 (time (mk_datetime 2024 1 1 9 0)) \<and> in_slot2 (time (mk_datetime 2024 1 1 10 0))
   \<and> \<not> in_slot1 (time_hm 9 0) \<and> \<not> in_slot3 (time_hm 9 0)
   \<and> slot1 False
        \<lparr>r0800_1659 = \<lparr>max_stay = Hours 2, price_per_hour = 10\<rparr>,
         r1700_2359 = \<lparr>max_stay = UpToMidnight, price_per_hour = 5\<rparr>,
         r0000_0759 = \<lparr>price_one_time = 20\<rparr>\<rparr>
        (ymd2ord 2024 1 1) (mk_datetime 2024 1 1 9 0) (mk_datetime 2024 1 1 10 0) 0 = 0
   \<and> slot3 False
        \<lparr>r0800_1659 = \<lparr>max_stay = Hours 2, price_per_hour = 10\<rparr>,
         r1700_2359 = \<lparr>max_stay = UpToMidnight, price_per_hour = 5\<rparr>,
         r0000_0759 = \<lparr>price_one_time = 20\<rparr>\<rparr>
        (ymd2ord 2024 1 1) (mk_datetime 2024 1 1 9 0) (mk_datetime 2024 1 1 10 0) 0 = 0"
proof -
  let ?r = "\<lparr>r0800_1659 = \<lparr>max_stay = Hours 2, price_per_hour = 10\<rparr>,
             r1700_2359 = \<lparr>max_stay = UpToMidnight, price_per_hour = 5\<rparr>,
             r0000_0759 = \<lparr>price_one_time = 20\<rparr>\<rparr>"
  let ?ds = "mk_datetime 2024 1 1 9 0" and ?de = "mk_datetime 2024 1 1 10 0"
  have h1: "date ?ds = ymd2ord 2024 1 1" and h2: "date ?de = ymd2ord 2024 1 1"
    by code_simp+
  have inside: "in_slot2 (time ?ds)" "in_slot2 (time ?de)" "in_slot2 (time_hm 9 0)"
    by code_simp+
  note w = slot_windows [OF h1 h2, where t = "time_hm 9 0" and fp = False and r = ?r
      and total_fee = 0]
  have disjoint: "in_slot2 (time_hm 9 0) \<longrightarrow> \<not> in_slot3 (time_hm 9 0)"
    using w by (elim conjE) assumption
  have disjoint': "in_slot1 (time_hm 9 0) \<longrightarrow> \<not> in_slot2 (time_hm 9 0) \<and> \<not> in_slot3 (time_hm 9 0)"
    using w by (elim conjE) assumption
  have only2: "in_slot2 (time ?ds) \<and> in_slot2 (time ?de) \<longrightarrow>
      slot1 False ?r (ymd2ord 2024 1 1) ?ds ?de 0 = 0
      \<and> slot3 False ?r (ymd2ord 2024 1 1) ?ds ?de 0 = 0"
    using w by (elim conjE) assumption
  from h1 h2 inside disjoint disjoint' only2 show ?thesis
    by simp
qed

end
